theory Spec2Isabelle
  imports Main
begin

section \<open>The bootstrap of the command-issuer controller manager (main.go)\<close>

text \<open>
  \<^verbatim>\<open>main\<close> is a straight-line procedure: it reads its flags, calls external collaborators
  (namespace discovery, config client, controller-runtime manager) and leaves through
  \<^verbatim>\<open>os.Exit(1)\<close> at the first fatal error. The embedding makes the effects explicit:
  the result of every external call is read from an environment record, and the run
  returns its exit code together with the trace of the calls it made and the lines it logged,
  in program order.
\<close>

subsection \<open>Errors\<close>

text \<open>
  Go error values. \<^verbatim>\<open>util.ErrNotInCluster\<close> is the sentinel that main.go compares with;
  \<open>Wrapped\<close> is an error that wraps another one (\<^verbatim>\<open>fmt.Errorf("...: %w", err)\<close>).
\<close>

datatype error = ErrNotInCluster | Err string | Wrapped string error

text \<open>\<^verbatim>\<open>errors.Is\<close>: the error itself or any error on its unwrap chain equals the target.\<close>

fun errors_Is :: "error \<Rightarrow> error \<Rightarrow> bool" where
  "errors_Is (Wrapped m e) target = (Wrapped m e = target \<or> errors_Is e target)"
| "errors_Is e target = (e = target)"

subsection \<open>Values of the collaborating packages\<close>

text \<open>
  The packages \<^verbatim>\<open>util\<close>, \<^verbatim>\<open>signer\<close>, \<^verbatim>\<open>controllers\<close> and controller-runtime are
  not part of main.go. Their values are opaque here: a client, a REST configuration, a
  config client and a builder function are identified by a number; \<open>NilConfigClient\<close>
  is the zero value of the config client's type. A scheme is the list of the API groups
  registered in it. A clock is the real one (\<^verbatim>\<open>clock.RealClock{}\<close>) or some other
  implementation of the interface.
\<close>

datatype client = K8sClient nat
datatype runtime_scheme = RuntimeScheme "string list"
datatype rest_config = RestConfig nat
datatype config_client = NilConfigClient | SomeConfigClient nat
datatype health_checker_builder = HealthCheckerBuilder nat
datatype signer_builder = SignerBuilder nat
datatype clock = RealClock | OtherClock nat

text \<open>
  \<^verbatim>\<open>healthz.Checker\<close> is the function type \<^verbatim>\<open>func(req *http.Request) error\<close>; a request
  is opaque.
\<close>

datatype http_Request = Request nat

type_synonym checker = "http_Request \<Rightarrow> error option"

text \<open>
  Modelled from the spec: \<^verbatim>\<open>healthz.Ping\<close> of controller-runtime, which is not part
  of main.go. The spec calls it a static "ping" check; it returns \<^verbatim>\<open>nil\<close> for every
  request.
\<close>

definition Ping :: checker where
  "Ping = (\<lambda>req. None)"

record metricsserver_Options =
  BindAddress :: string

record webhookserver_Options =
  Port :: nat

datatype webhook_server = NewServer webhookserver_Options

record ctrl_Options =
  Scheme :: runtime_scheme
  Metrics :: metricsserver_Options
  WebhookServer :: webhook_server
  HealthProbeBindAddress :: string
  LeaderElection :: bool
  LeaderElectionID :: string

record manager =
  GetClient :: client
  GetScheme :: runtime_scheme

text \<open>
  The two reconciler structs of package \<^verbatim>\<open>controllers\<close>, with the fields main.go sets.
  Both have fields of the same names, so the fields carry the prefix \<open>ir_\<close>
  (IssuerReconciler) or \<open>cr_\<close> (CertificateRequestReconciler).
\<close>

record IssuerReconciler =
  ir_Kind :: string
  ir_Client :: client
  ir_ConfigClient :: config_client
  ir_Scheme :: runtime_scheme
  ir_ClusterResourceNamespace :: string
  ir_SecretAccessGrantedAtClusterLevel :: bool
  ir_HealthCheckerBuilder :: health_checker_builder

record CertificateRequestReconciler =
  cr_Client :: client
  cr_Scheme :: runtime_scheme
  cr_ConfigClient :: config_client
  cr_ClusterResourceNamespace :: string
  cr_SignerBuilder :: signer_builder
  cr_CheckApprovedCondition :: bool
  cr_SecretAccessGrantedAtClusterLevel :: bool
  cr_Clock :: clock

subsection \<open>Flags\<close>

text \<open>
  The command line as \<^verbatim>\<open>flag.Parse\<close> has read it: for each flag main.go declares, the
  value given on the command line, or \<open>None\<close> when the flag is absent. The flags that
  \<^verbatim>\<open>zap.Options.BindFlags\<close> adds configure the logger only and are left out.
\<close>

record cmdline =
  arg_metrics_bind_address :: "string option"
  arg_health_probe_bind_address :: "string option"
  arg_leader_elect :: "bool option"
  arg_cluster_resource_namespace :: "string option"
  arg_version :: "bool option"
  arg_disable_approved_check :: "bool option"
  arg_secret_access_granted_at_cluster_level :: "bool option"

text \<open>
  \<^verbatim>\<open>flag.StringVar(&v, name, default, usage)\<close> followed by \<^verbatim>\<open>flag.Parse()\<close>: the variable
  holds the default unless the flag was given.
\<close>

definition StringVar :: "string option \<Rightarrow> string \<Rightarrow> string" where
  "StringVar given dflt = (case given of None \<Rightarrow> dflt | Some v \<Rightarrow> v)"

definition BoolVar :: "bool option \<Rightarrow> bool \<Rightarrow> bool" where
  "BoolVar given dflt = (case given of None \<Rightarrow> dflt | Some v \<Rightarrow> v)"

subsection \<open>Environment, trace and outcome\<close>

text \<open>
  What the external calls of one run return. A Go function returning \<^verbatim>\<open>(v, err)\<close> is a
  pair of the value and an optional error (\<open>None\<close> is \<^verbatim>\<open>nil\<close>).
  \<^verbatim>\<open>ctrl.GetConfigOrDie\<close> either returns a configuration or ends the process with exit
  code 1 (\<open>None\<close>). \<open>global_scheme\<close> is the package variable \<^verbatim>\<open>scheme\<close> as
  \<^verbatim>\<open>init\<close> has left it. The two builder functions of package \<^verbatim>\<open>signer\<close> that
  main.go passes by name are parameters as well.
\<close>

record env =
  global_scheme :: runtime_scheme
  signer_CommandHealthCheckerFromIssuerAndSecretData :: health_checker_builder
  signer_CommandSignerFromIssuerAndSecretData :: signer_builder
  util_GetInClusterNamespace :: "string \<times> error option"
  util_NewConfigClient :: "config_client \<times> error option"
  ctrl_GetConfigOrDie :: "rest_config option"
  ctrl_NewManager :: "rest_config \<Rightarrow> ctrl_Options \<Rightarrow> manager \<times> error option"
  IssuerReconciler_SetupWithManager :: "IssuerReconciler \<Rightarrow> manager \<Rightarrow> error option"
  CertificateRequestReconciler_SetupWithManager ::
    "CertificateRequestReconciler \<Rightarrow> manager \<Rightarrow> error option"
  mgr_AddHealthzCheck :: "string \<Rightarrow> checker \<Rightarrow> error option"
  mgr_AddReadyzCheck :: "string \<Rightarrow> checker \<Rightarrow> error option"
  mgr_Start :: "error option"

text \<open>
  The observable steps of a run. A call event carries the arguments main.go passed and the
  result the call returned. \<open>LogError err msg keysAndValues\<close> and \<open>LogInfo msg\<close> are
  the calls on \<^verbatim>\<open>setupLog\<close>; \<open>Stdout\<close> is a line written to standard output.
\<close>

datatype event =
    SetLogger
  | GetInClusterNamespace "string \<times> error option"
  | LogError error string "string list"
  | LogInfo string
  | Stdout string
  | NewConfigClient "config_client \<times> error option"
  | GetConfigOrDie "rest_config option"
  | NewManager rest_config ctrl_Options "error option"
  | SetupIssuerReconciler IssuerReconciler "error option"
  | SetupCertificateRequestReconciler CertificateRequestReconciler "error option"
  | AddHealthzCheck string checker "error option"
  | AddReadyzCheck string checker "error option"
  | Start "error option"

record outcome =
  exit_code :: nat
  trace :: "event list"

text \<open>
  \<^verbatim>\<open>os.Exit(code)\<close> ends the run with that code; returning from \<^verbatim>\<open>main\<close> ends it
  with code 0. \<open>steps es rest\<close> is a run that performs \<open>es\<close> and goes on as \<open>rest\<close>.
\<close>

definition os_Exit :: "nat \<Rightarrow> outcome" where
  "os_Exit code = \<lparr>exit_code = code, trace = []\<rparr>"

definition return_from_main :: outcome where
  "return_from_main = \<lparr>exit_code = 0, trace = []\<rparr>"

definition steps :: "event list \<Rightarrow> outcome \<Rightarrow> outcome" where
  "steps es rest = \<lparr>exit_code = exit_code rest, trace = es @ trace rest\<rparr>"

subsection \<open>main\<close>

text \<open>
  \<^verbatim>\<open>func main()\<close> in five consecutive parts, last part first; each part ends by running
  the next one. The local variables that the flags are parsed into are passed along in a
  record.
\<close>

record flags =
  metricsAddr :: string
  enableLeaderElection :: bool
  probeAddr :: string
  clusterResourceNamespace :: string
  printVersion :: bool
  disableApprovedCheck :: bool
  secretAccessGrantedAtClusterLevel :: bool

text \<open>Lines 196 to 200: start the manager and block until it returns.\<close>

definition main_start :: "env \<Rightarrow> outcome" where
  "main_start env =
     steps [LogInfo ''starting manager'']
       (let err = mgr_Start env in
        steps [Start err]
          (case err of
             Some e \<Rightarrow> steps [LogError e ''problem running manager'' []] (os_Exit 1)
           | None \<Rightarrow> return_from_main))"

text \<open>Lines 187 to 194: the health and readiness checks.\<close>

definition main_checks :: "env \<Rightarrow> outcome" where
  "main_checks env =
     (let err = mgr_AddHealthzCheck env ''healthz'' Ping in
      steps [AddHealthzCheck ''healthz'' Ping err]
        (case err of
           Some e \<Rightarrow> steps [LogError e ''unable to set up health check'' []] (os_Exit 1)
         | None \<Rightarrow>
        (let err = mgr_AddReadyzCheck env ''readyz'' Ping in
         steps [AddReadyzCheck ''readyz'' Ping err]
           (case err of
              Some e \<Rightarrow> steps [LogError e ''unable to set up ready check'' []] (os_Exit 1)
            | None \<Rightarrow> main_start env))))"

text \<open>
  Lines 148 to 184: the three reconcilers are built and registered with the manager.
  \<open>ns\<close> is the value of \<^verbatim>\<open>clusterResourceNamespace\<close> after lines 92 to 103.
\<close>

definition main_controllers ::
  "flags \<Rightarrow> env \<Rightarrow> string \<Rightarrow> config_client \<Rightarrow> manager \<Rightarrow> outcome" where
  "main_controllers fl env ns configClient mgr =
     (let issuer =
            \<lparr>ir_Kind = ''Issuer'',
             ir_Client = GetClient mgr,
             ir_ConfigClient = configClient,
             ir_Scheme = GetScheme mgr,
             ir_ClusterResourceNamespace = ns,
             ir_SecretAccessGrantedAtClusterLevel = secretAccessGrantedAtClusterLevel fl,
             ir_HealthCheckerBuilder =
               signer_CommandHealthCheckerFromIssuerAndSecretData env\<rparr>;
          err = IssuerReconciler_SetupWithManager env issuer mgr
      in
      steps [SetupIssuerReconciler issuer err]
        (case err of
           Some e \<Rightarrow>
             steps [LogError e ''unable to create controller'' [''controller'', ''Issuer'']]
               (os_Exit 1)
         | None \<Rightarrow>
     (let clusterIssuer =
            \<lparr>ir_Kind = ''ClusterIssuer'',
             ir_Client = GetClient mgr,
             ir_ConfigClient = configClient,
             ir_Scheme = GetScheme mgr,
             ir_ClusterResourceNamespace = ns,
             ir_SecretAccessGrantedAtClusterLevel = secretAccessGrantedAtClusterLevel fl,
             ir_HealthCheckerBuilder =
               signer_CommandHealthCheckerFromIssuerAndSecretData env\<rparr>;
          err = IssuerReconciler_SetupWithManager env clusterIssuer mgr
      in
      steps [SetupIssuerReconciler clusterIssuer err]
        (case err of
           Some e \<Rightarrow>
             steps [LogError e ''unable to create controller''
                      [''controller'', ''ClusterIssuer'']]
               (os_Exit 1)
         | None \<Rightarrow>
     (let certificateRequest =
            \<lparr>cr_Client = GetClient mgr,
             cr_Scheme = GetScheme mgr,
             cr_ConfigClient = configClient,
             cr_ClusterResourceNamespace = ns,
             cr_SignerBuilder = signer_CommandSignerFromIssuerAndSecretData env,
             cr_CheckApprovedCondition = (\<not> disableApprovedCheck fl),
             cr_SecretAccessGrantedAtClusterLevel = secretAccessGrantedAtClusterLevel fl,
             cr_Clock = RealClock\<rparr>;
          err = CertificateRequestReconciler_SetupWithManager env certificateRequest mgr
      in
      steps [SetupCertificateRequestReconciler certificateRequest err]
        (case err of
           Some e \<Rightarrow>
             steps [LogError e ''unable to create controller''
                      [''controller'', ''CertificateRequest'']]
               (os_Exit 1)
         | None \<Rightarrow> main_checks env))))))"

text \<open>
  Lines 105 to 146: the secret access scope is logged, the config client and the manager
  are built. A failure of \<^verbatim>\<open>util.NewConfigClient\<close> is logged and nothing else.
\<close>

definition main_manager :: "flags \<Rightarrow> env \<Rightarrow> string \<Rightarrow> outcome" where
  "main_manager fl env ns =
     steps [if secretAccessGrantedAtClusterLevel fl
            then LogInfo ''expecting secret access at cluster level''
            else LogInfo (''expecting secret access at namespace level ('' @ ns @ '')'')]
       (case util_NewConfigClient env of (configClient, err) \<Rightarrow>
        steps [NewConfigClient (configClient, err)]
       ((case err of
           Some e \<Rightarrow> steps [LogError e ''error creating config client'' []]
         | None \<Rightarrow> steps [])
       (let mtr = \<lparr>BindAddress = metricsAddr fl\<rparr>;
            hookServer = NewServer \<lparr>Port = 9443\<rparr>
        in
        steps [GetConfigOrDie (ctrl_GetConfigOrDie env)]
          (case ctrl_GetConfigOrDie env of
             None \<Rightarrow> os_Exit 1
           | Some cfg \<Rightarrow>
          (let opts = \<lparr>Scheme = global_scheme env,
                       Metrics = mtr,
                       WebhookServer = hookServer,
                       HealthProbeBindAddress = probeAddr fl,
                       LeaderElection = enableLeaderElection fl,
                       LeaderElectionID = ''b68cef20.keyfactor.com''\<rparr>
           in
           case ctrl_NewManager env cfg opts of (mgr, err) \<Rightarrow>
           steps [NewManager cfg opts err]
             (case err of
                Some e \<Rightarrow> steps [LogError e ''unable to start manager'' []] (os_Exit 1)
              | None \<Rightarrow> main_controllers fl env ns configClient mgr))))))"

text \<open>
  Lines 64 to 88: the flags with their defaults. Nothing in \<^verbatim>\<open>main\<close> reads
  \<open>printVersion\<close> after this.
\<close>

definition parse_flags :: "cmdline \<Rightarrow> flags" where
  "parse_flags args =
     \<lparr>metricsAddr = StringVar (arg_metrics_bind_address args) '':8080'',
      enableLeaderElection = BoolVar (arg_leader_elect args) False,
      probeAddr = StringVar (arg_health_probe_bind_address args) '':8081'',
      clusterResourceNamespace = StringVar (arg_cluster_resource_namespace args) [],
      printVersion = BoolVar (arg_version args) False,
      disableApprovedCheck = BoolVar (arg_disable_approved_check args) False,
      secretAccessGrantedAtClusterLevel =
        BoolVar (arg_secret_access_granted_at_cluster_level args) False\<rparr>"

text \<open>Lines 63 to 103: flags, logger, and the namespace of the cluster-scoped resources.\<close>

definition main :: "cmdline \<Rightarrow> env \<Rightarrow> outcome" where
  "main args env =
     (let fl = parse_flags args in
      steps [SetLogger]
        (if clusterResourceNamespace fl = []
         then (case util_GetInClusterNamespace env of (ns, err) \<Rightarrow>
               steps [GetInClusterNamespace (ns, err)]
                 (case err of
                    Some e \<Rightarrow>
                      steps [if errors_Is e ErrNotInCluster
                             then LogError e ''please supply --cluster-resource-namespace'' []
                             else LogError e
                                    ''unexpected error while getting in-cluster Namespace'' []]
                        (os_Exit 1)
                  | None \<Rightarrow> main_manager fl env ns))
         else main_manager fl env (clusterResourceNamespace fl)))"

subsection \<open>Reading a trace\<close>

text \<open>
  The reconcilers that a run registered, the options it built managers from and the
  checks it added, each in program order.
\<close>

fun issuer_reconcilers :: "event list \<Rightarrow> IssuerReconciler list" where
  "issuer_reconcilers [] = []"
| "issuer_reconcilers (SetupIssuerReconciler r err # es) = r # issuer_reconcilers es"
| "issuer_reconcilers (ev # es) = issuer_reconcilers es"

fun certificate_request_reconcilers :: "event list \<Rightarrow> CertificateRequestReconciler list" where
  "certificate_request_reconcilers [] = []"
| "certificate_request_reconcilers (SetupCertificateRequestReconciler r err # es) =
     r # certificate_request_reconcilers es"
| "certificate_request_reconcilers (ev # es) = certificate_request_reconcilers es"

fun manager_options :: "event list \<Rightarrow> ctrl_Options list" where
  "manager_options [] = []"
| "manager_options (NewManager cfg opts err # es) = opts # manager_options es"
| "manager_options (ev # es) = manager_options es"

fun healthz_checks :: "event list \<Rightarrow> (string \<times> checker) list" where
  "healthz_checks [] = []"
| "healthz_checks (AddHealthzCheck name c err # es) = (name, c) # healthz_checks es"
| "healthz_checks (ev # es) = healthz_checks es"

fun readyz_checks :: "event list \<Rightarrow> (string \<times> checker) list" where
  "readyz_checks [] = []"
| "readyz_checks (AddReadyzCheck name c err # es) = (name, c) # readyz_checks es"
| "readyz_checks (ev # es) = readyz_checks es"

text \<open>Two issuer reconcilers that differ in no field other than \<open>Kind\<close>.\<close>

definition same_except_Kind :: "IssuerReconciler \<Rightarrow> IssuerReconciler \<Rightarrow> bool" where
  "same_except_Kind r r' \<longleftrightarrow>
     ir_Client r = ir_Client r' \<and>
     ir_ConfigClient r = ir_ConfigClient r' \<and>
     ir_Scheme r = ir_Scheme r' \<and>
     ir_ClusterResourceNamespace r = ir_ClusterResourceNamespace r' \<and>
     ir_SecretAccessGrantedAtClusterLevel r = ir_SecretAccessGrantedAtClusterLevel r' \<and>
     ir_HealthCheckerBuilder r = ir_HealthCheckerBuilder r'"


subsection \<open>Two command lines and three environments\<close>

text \<open>
  No flag at all, and \<^verbatim>\<open>--version\<close> alone. An environment inside a cluster where every
  call succeeds and the manager shuts down gracefully; the same with a failing
  \<^verbatim>\<open>util.NewConfigClient\<close>; and a machine outside any cluster.
\<close>

definition no_flags :: cmdline where
  "no_flags =
     \<lparr>arg_metrics_bind_address = None,
      arg_health_probe_bind_address = None,
      arg_leader_elect = None,
      arg_cluster_resource_namespace = None,
      arg_version = None,
      arg_disable_approved_check = None,
      arg_secret_access_granted_at_cluster_level = None\<rparr>"

definition version_flag :: cmdline where
  "version_flag = no_flags\<lparr>arg_version := Some True\<rparr>"

definition in_cluster :: env where
  "in_cluster =
     \<lparr>global_scheme = RuntimeScheme [''core'', ''command-issuer'', ''cert-manager''],
      signer_CommandHealthCheckerFromIssuerAndSecretData = HealthCheckerBuilder 0,
      signer_CommandSignerFromIssuerAndSecretData = SignerBuilder 0,
      util_GetInClusterNamespace = (''command-issuer-system'', None),
      util_NewConfigClient = (SomeConfigClient 0, None),
      ctrl_GetConfigOrDie = Some (RestConfig 0),
      ctrl_NewManager =
        (\<lambda>cfg opts. (\<lparr>GetClient = K8sClient 0, GetScheme = Scheme opts\<rparr>, None)),
      IssuerReconciler_SetupWithManager = (\<lambda>r mgr. None),
      CertificateRequestReconciler_SetupWithManager = (\<lambda>r mgr. None),
      mgr_AddHealthzCheck = (\<lambda>name c. None),
      mgr_AddReadyzCheck = (\<lambda>name c. None),
      mgr_Start = None\<rparr>"

definition no_config_client :: env where
  "no_config_client =
     in_cluster\<lparr>util_NewConfigClient := (NilConfigClient, Some (Err ''no kubeconfig''))\<rparr>"

definition not_in_cluster :: env where
  "not_in_cluster =
     in_cluster\<lparr>util_GetInClusterNamespace := ([], Some ErrNotInCluster),
                ctrl_GetConfigOrDie := None\<rparr>"

section \<open>The CertificateRequest reconciler, from the specification\<close>

text \<open>
  main.go builds the \<^verbatim>\<open>CertificateRequestReconciler\<close> and hands it to the manager; the
  reconcile pass itself lives in package \<^verbatim>\<open>controllers\<close>, which is not among the
  sources. This section follows sections 3, 4.2 and 9 of the specification: one pass is a
  function from the spec and status of the request and the external reads of the pass to
  the new status, the requeue decision and the call made to the CA.
\<close>

datatype condition_status = CondTrue | CondFalse | CondUnknown

record condition =
  cond_type :: string
  cond_status :: condition_status
  cond_reason :: string
  cond_message :: string

record CertificateRequestSpec =
  issuerRef :: "string \<times> string"
  request :: string
  duration :: nat
  usages :: "string list"

record CertificateRequestStatus =
  conditions :: "condition list"
  certificate :: "string option"
  ca :: "string option"

text \<open>
  Modelled from the spec: the condition helpers of package \<^verbatim>\<open>controllers\<close>.
  Section 3: the conditions hold at most one condition per type, and an update replaces
  the condition of its type in place.
\<close>

fun find_condition :: "string \<Rightarrow> condition list \<Rightarrow> condition option" where
  "find_condition ty [] = None"
| "find_condition ty (c # cs) = (if cond_type c = ty then Some c else find_condition ty cs)"

fun set_condition :: "condition \<Rightarrow> condition list \<Rightarrow> condition list" where
  "set_condition new [] = [new]"
| "set_condition new (c # cs) =
     (if cond_type c = cond_type new then new # cs else c # set_condition new cs)"

definition set_ready ::
  "condition_status \<Rightarrow> string \<Rightarrow> CertificateRequestStatus \<Rightarrow> CertificateRequestStatus" where
  "set_ready s r st =
     st\<lparr>conditions :=
          set_condition \<lparr>cond_type = ''Ready'', cond_status = s, cond_reason = r,
                         cond_message = []\<rparr> (conditions st)\<rparr>"

definition ready_reason :: "CertificateRequestStatus \<Rightarrow> string option" where
  "ready_reason st = map_option cond_reason (find_condition ''Ready'' (conditions st))"

text \<open>\<open>Ready=True,reason=Issued\<close> is recorded on the request.\<close>

definition issued :: "CertificateRequestStatus \<Rightarrow> bool" where
  "issued st =
     (case find_condition ''Ready'' (conditions st) of
        None \<Rightarrow> False
      | Some c \<Rightarrow> cond_status c = CondTrue \<and> cond_reason c = ''Issued'')"

text \<open>
  The approval of a request is a condition of type \<open>Approved\<close> or \<open>Denied\<close> that an
  external approver sets; the reconciler reads it and never writes it.
\<close>

datatype approval = Approved | Denied

definition approval_of :: "CertificateRequestStatus \<Rightarrow> approval option" where
  "approval_of st =
     (if find_condition ''Denied'' (conditions st) \<noteq> None then Some Denied
      else if find_condition ''Approved'' (conditions st) \<noteq> None then Some Approved
      else None)"

text \<open>
  The external reads of one pass: the referenced issuer (missing, or found with the status
  of its \<open>Ready\<close> condition), the secret data it refers to (\<open>None\<close> when the resolution
  fails), and the answer of the signer built from that data to the request.
\<close>

datatype issuer_lookup = IssuerNotFound | IssuerFound condition_status

datatype sign_result = Signed string string | TransientError | PermanentError

record external_reads =
  issuer :: issuer_lookup
  secret :: "(string \<times> string) list option"
  signer :: "(string \<times> string) list \<Rightarrow> string \<Rightarrow> nat \<Rightarrow> string list \<Rightarrow> sign_result"

datatype requeue = NoRequeue | RequeueWithBackoff

datatype ca_call = NoCall | Submitted sign_result

record reconcile_result =
  new_status :: CertificateRequestStatus
  requeue :: requeue
  ca_call :: ca_call

text \<open>
  Modelled from the spec: \<^verbatim>\<open>CertificateRequestReconciler.Reconcile\<close> of package
  \<^verbatim>\<open>controllers\<close>. Section 4.2, transitions 1 to 5 in their order: the terminal
  check, the approval gate (only with \<open>CheckApprovedCondition\<close>), the readiness of the
  issuer, the resolution of the secret, and the call of the signer with its three answers.
  Transition 4 names the scoping rule of section 4.1 and no outcome of its own; as in
  section 4.1, a secret that cannot be resolved is recorded as \<open>Ready=False\<close> with the
  reason \<open>SecretNotFound\<close>, without requeue and without a call to the signer.
\<close>

definition reconcile ::
  "bool \<Rightarrow> CertificateRequestSpec \<Rightarrow> CertificateRequestStatus \<Rightarrow> external_reads \<Rightarrow>
   reconcile_result" where
  "reconcile CheckApprovedCondition spec st ext =
     (if ready_reason st = Some ''Issued'' \<or> ready_reason st = Some ''Denied''
      then \<lparr>new_status = st, requeue = NoRequeue, ca_call = NoCall\<rparr>
      else if CheckApprovedCondition \<and> approval_of st = None
      then \<lparr>new_status = st, requeue = NoRequeue, ca_call = NoCall\<rparr>
      else if CheckApprovedCondition \<and> approval_of st = Some Denied
      then \<lparr>new_status = set_ready CondFalse ''Denied'' st, requeue = NoRequeue,
            ca_call = NoCall\<rparr>
      else if issuer ext \<noteq> IssuerFound CondTrue
      then \<lparr>new_status = set_ready CondFalse ''IssuerNotReady'' st,
            requeue = RequeueWithBackoff, ca_call = NoCall\<rparr>
      else
        (case secret ext of
           None \<Rightarrow>
             \<lparr>new_status = set_ready CondFalse ''SecretNotFound'' st, requeue = NoRequeue,
              ca_call = NoCall\<rparr>
         | Some secretData \<Rightarrow>
             (case signer ext secretData (request spec) (duration spec) (usages spec) of
                TransientError \<Rightarrow>
                  \<lparr>new_status = set_ready CondFalse ''Pending'' st,
                   requeue = RequeueWithBackoff, ca_call = Submitted TransientError\<rparr>
              | PermanentError \<Rightarrow>
                  \<lparr>new_status = set_ready CondFalse ''Failed'' st, requeue = NoRequeue,
                   ca_call = Submitted PermanentError\<rparr>
              | Signed cert chain \<Rightarrow>
                  \<lparr>new_status =
                     (set_ready CondTrue ''Issued'' st)
                       \<lparr>certificate := Some cert, ca := Some chain\<rparr>,
                   requeue = NoRequeue, ca_call = Submitted (Signed cert chain)\<rparr>)))"

text \<open>
  Between two passes the external approver may set the \<open>Approved\<close> or the \<open>Denied\<close>
  condition; nothing else writes the status. A round is what the approver does before a
  pass, and the external reads of the pass. \<open>reconciles\<close> runs the rounds in order and
  returns the last status and the call each pass made to the CA.
\<close>

definition approver_sets ::
  "approval option \<Rightarrow> CertificateRequestStatus \<Rightarrow> CertificateRequestStatus" where
  "approver_sets a st =
     (case a of
        None \<Rightarrow> st
      | Some Approved \<Rightarrow>
          st\<lparr>conditions :=
               set_condition \<lparr>cond_type = ''Approved'', cond_status = CondTrue,
                              cond_reason = ''Approved'', cond_message = []\<rparr>
                 (conditions st)\<rparr>
      | Some Denied \<Rightarrow>
          st\<lparr>conditions :=
               set_condition \<lparr>cond_type = ''Denied'', cond_status = CondTrue,
                              cond_reason = ''Denied'', cond_message = []\<rparr>
                 (conditions st)\<rparr>)"

fun reconciles ::
  "bool \<Rightarrow> CertificateRequestSpec \<Rightarrow> CertificateRequestStatus \<Rightarrow>
   (approval option \<times> external_reads) list \<Rightarrow> CertificateRequestStatus \<times> ca_call list" where
  "reconciles check spec st [] = (st, [])"
| "reconciles check spec st ((a, ext) # rounds) =
     (let r = reconcile check spec (approver_sets a st) ext;
          (st', calls) = reconciles check spec (new_status r) rounds
      in (st', ca_call r # calls))"

text \<open>A call to the signer that succeeded, whose certificate the pass has written.\<close>

fun issuance :: "ca_call \<Rightarrow> bool" where
  "issuance (Submitted (Signed cert chain)) = True"
| "issuance call = False"

text \<open>A fresh, approved request for the issuer \<open>ca-issuer\<close>, and a round on which the CA signs.\<close>

definition fresh_request :: CertificateRequestSpec where
  "fresh_request =
     \<lparr>issuerRef = (''ca-issuer'', ''Issuer''), request = ''CSR'', duration = 3600,
      usages = [''digital signature'']\<rparr>"

definition no_status :: CertificateRequestStatus where
  "no_status = \<lparr>conditions = [], certificate = None, ca = None\<rparr>"

definition signing_round :: "approval option \<times> external_reads" where
  "signing_round =
     (Some Approved,
      \<lparr>issuer = IssuerFound CondTrue,
       secret = Some [(''token'', ''s3cr3t'')],
       signer = (\<lambda>secretData csr d us. Signed (''CERT for '' @ csr) ''CA'')\<rparr>)"

section \<open>Properties\<close>

subsection \<open>The parts of main, one by one\<close>

text \<open>
  Each property of a run of \<open>main\<close> is shown for its last part first and carried upwards
  through the parts that run before it.
\<close>

lemma exit_code_steps [simp]: "exit_code (steps es rest) = exit_code rest"
  by (simp add: steps_def)

lemma trace_steps [simp]: "trace (steps es rest) = es @ trace rest"
  by (simp add: steps_def)

lemma os_Exit_simps [simp]: "exit_code (os_Exit c) = c" "trace (os_Exit c) = []"
  by (simp_all add: os_Exit_def)

lemma return_from_main_simps [simp]:
  "exit_code return_from_main = 0" "trace return_from_main = []"
  by (simp_all add: return_from_main_def)

lemma issuer_reconcilers_append [simp]:
  "issuer_reconcilers (xs @ ys) = issuer_reconcilers xs @ issuer_reconcilers ys"
  by (induction xs rule: issuer_reconcilers.induct) simp_all

lemma certificate_request_reconcilers_append [simp]:
  "certificate_request_reconcilers (xs @ ys) =
   certificate_request_reconcilers xs @ certificate_request_reconcilers ys"
  by (induction xs rule: certificate_request_reconcilers.induct) simp_all

lemma manager_options_append [simp]:
  "manager_options (xs @ ys) = manager_options xs @ manager_options ys"
  by (induction xs rule: manager_options.induct) simp_all

lemma healthz_checks_append [simp]:
  "healthz_checks (xs @ ys) = healthz_checks xs @ healthz_checks ys"
  by (induction xs rule: healthz_checks.induct) simp_all

lemma readyz_checks_append [simp]:
  "readyz_checks (xs @ ys) = readyz_checks xs @ readyz_checks ys"
  by (induction xs rule: readyz_checks.induct) simp_all







lemma main_start_projections:
  "issuer_reconcilers (trace (main_start env)) = []"
  "certificate_request_reconcilers (trace (main_start env)) = []"
  "manager_options (trace (main_start env)) = []"
  "healthz_checks (trace (main_start env)) = []"
  "readyz_checks (trace (main_start env)) = []"
  by (simp_all add: main_start_def Let_def split: option.split)

lemma main_checks_projections:
  "issuer_reconcilers (trace (main_checks env)) = []"
  "certificate_request_reconcilers (trace (main_checks env)) = []"
  "manager_options (trace (main_checks env)) = []"
  by (simp_all add: main_checks_def Let_def main_start_projections split: option.split)

lemma main_checks_checks:
  "healthz_checks (trace (main_checks env)) = [(''healthz'', Ping)]"
  "readyz_checks (trace (main_checks env)) = [] \<or>
   readyz_checks (trace (main_checks env)) = [(''readyz'', Ping)]"
  by (simp_all add: main_checks_def Let_def main_start_projections split: option.split)

lemma main_controllers_projections:
  "manager_options (trace (main_controllers fl env ns cc mgr)) = []"
  "healthz_checks (trace (main_controllers fl env ns cc mgr)) = [] \<or>
   healthz_checks (trace (main_controllers fl env ns cc mgr)) = [(''healthz'', Ping)]"
  "readyz_checks (trace (main_controllers fl env ns cc mgr)) = [] \<or>
   readyz_checks (trace (main_controllers fl env ns cc mgr)) = [(''readyz'', Ping)]"
  using main_checks_checks(2) [of env]
  by (simp_all add: main_controllers_def Let_def main_checks_projections main_checks_checks(1)
      split: option.split)


lemma main_controllers_fields:
  "\<forall>r \<in> set (issuer_reconcilers (trace (main_controllers fl env ns cc mgr))).
     ir_ConfigClient r = cc \<and> ir_ClusterResourceNamespace r = ns \<and>
     ir_SecretAccessGrantedAtClusterLevel r = secretAccessGrantedAtClusterLevel fl"
  "\<forall>r \<in> set (certificate_request_reconcilers (trace (main_controllers fl env ns cc mgr))).
     cr_ConfigClient r = cc \<and> cr_ClusterResourceNamespace r = ns \<and>
     cr_SecretAccessGrantedAtClusterLevel r = secretAccessGrantedAtClusterLevel fl \<and>
     cr_CheckApprovedCondition r = (\<not> disableApprovedCheck fl)"
  by (simp_all add: main_controllers_def Let_def main_checks_projections split: option.split)

lemma main_manager_fields:
  "\<forall>r \<in> set (issuer_reconcilers (trace (main_manager fl env ns))).
     ir_ConfigClient r = fst (util_NewConfigClient env) \<and> ir_ClusterResourceNamespace r = ns \<and>
     ir_SecretAccessGrantedAtClusterLevel r = secretAccessGrantedAtClusterLevel fl"
  "\<forall>r \<in> set (certificate_request_reconcilers (trace (main_manager fl env ns))).
     cr_ConfigClient r = fst (util_NewConfigClient env) \<and> cr_ClusterResourceNamespace r = ns \<and>
     cr_SecretAccessGrantedAtClusterLevel r = secretAccessGrantedAtClusterLevel fl \<and>
     cr_CheckApprovedCondition r = (\<not> disableApprovedCheck fl)"
  by (simp_all add: main_manager_def Let_def main_controllers_fields
      split: option.split prod.split)

lemma main_fields:
  "\<forall>r \<in> set (issuer_reconcilers (trace (main args env))).
     ir_ConfigClient r = fst (util_NewConfigClient env) \<and>
     ir_ClusterResourceNamespace r =
       (if clusterResourceNamespace (parse_flags args) = []
        then fst (util_GetInClusterNamespace env)
        else clusterResourceNamespace (parse_flags args)) \<and>
     ir_SecretAccessGrantedAtClusterLevel r =
       secretAccessGrantedAtClusterLevel (parse_flags args)"
  "\<forall>r \<in> set (certificate_request_reconcilers (trace (main args env))).
     cr_ConfigClient r = fst (util_NewConfigClient env) \<and>
     cr_ClusterResourceNamespace r =
       (if clusterResourceNamespace (parse_flags args) = []
        then fst (util_GetInClusterNamespace env)
        else clusterResourceNamespace (parse_flags args)) \<and>
     cr_SecretAccessGrantedAtClusterLevel r =
       secretAccessGrantedAtClusterLevel (parse_flags args) \<and>
     cr_CheckApprovedCondition r = (\<not> disableApprovedCheck (parse_flags args))"
  by (simp_all add: main_def Let_def main_manager_fields split: option.split prod.split)

lemma main_controllers_kinds:
  "map ir_Kind (issuer_reconcilers (trace (main_controllers fl env ns cc mgr))) = [''Issuer''] \<or>
   map ir_Kind (issuer_reconcilers (trace (main_controllers fl env ns cc mgr))) =
     [''Issuer'', ''ClusterIssuer'']"
  by (simp add: main_controllers_def Let_def main_checks_projections split: option.split)

lemma main_manager_kinds:
  "issuer_reconcilers (trace (main_manager fl env ns)) = [] \<or>
   map ir_Kind (issuer_reconcilers (trace (main_manager fl env ns))) = [''Issuer''] \<or>
   map ir_Kind (issuer_reconcilers (trace (main_manager fl env ns))) =
     [''Issuer'', ''ClusterIssuer'']"
  by (simp add: main_manager_def Let_def main_controllers_kinds split: option.split prod.split)

lemma main_kinds:
  "issuer_reconcilers (trace (main args env)) = [] \<or>
   map ir_Kind (issuer_reconcilers (trace (main args env))) = [''Issuer''] \<or>
   map ir_Kind (issuer_reconcilers (trace (main args env))) = [''Issuer'', ''ClusterIssuer'']"
  by (simp add: main_def Let_def main_manager_kinds split: option.split prod.split)

lemma main_controllers_agree:
  "\<forall>r \<in> set (issuer_reconcilers (trace (main_controllers fl env ns cc mgr))).
   \<forall>r' \<in> set (issuer_reconcilers (trace (main_controllers fl env ns cc mgr))).
     same_except_Kind r r'"
  by (simp add: main_controllers_def Let_def main_checks_projections same_except_Kind_def
      split: option.split)

lemma main_manager_agree:
  "\<forall>r \<in> set (issuer_reconcilers (trace (main_manager fl env ns))).
   \<forall>r' \<in> set (issuer_reconcilers (trace (main_manager fl env ns))).
     same_except_Kind r r'"
  by (simp add: main_manager_def Let_def main_controllers_agree split: option.split prod.split)

lemma main_agree:
  "\<forall>r \<in> set (issuer_reconcilers (trace (main args env))).
   \<forall>r' \<in> set (issuer_reconcilers (trace (main args env))).
     same_except_Kind r r'"
  by (simp add: main_def Let_def main_manager_agree split: option.split prod.split)

lemma main_manager_options:
  "\<forall>opts \<in> set (manager_options (trace (main_manager fl env ns))).
     BindAddress (Metrics opts) = metricsAddr fl \<and> HealthProbeBindAddress opts = probeAddr fl"
  by (simp add: main_manager_def Let_def main_controllers_projections
      split: option.split prod.split)

lemma main_options:
  "\<forall>opts \<in> set (manager_options (trace (main args env))).
     BindAddress (Metrics opts) = metricsAddr (parse_flags args) \<and>
     HealthProbeBindAddress opts = probeAddr (parse_flags args)"
  by (simp add: main_def Let_def main_manager_options split: option.split prod.split)

lemma main_manager_checks:
  "healthz_checks (trace (main_manager fl env ns)) = [] \<or>
   healthz_checks (trace (main_manager fl env ns)) = [(''healthz'', Ping)]"
  "readyz_checks (trace (main_manager fl env ns)) = [] \<or>
   readyz_checks (trace (main_manager fl env ns)) = [(''readyz'', Ping)]"
  by (simp_all add: main_manager_def Let_def main_controllers_projections
      split: option.split prod.split)

lemma main_checks_registered:
  "healthz_checks (trace (main args env)) = [] \<or>
   healthz_checks (trace (main args env)) = [(''healthz'', Ping)]"
  "readyz_checks (trace (main args env)) = [] \<or>
   readyz_checks (trace (main args env)) = [(''readyz'', Ping)]"
  by (simp_all add: main_def Let_def main_manager_checks split: option.split prod.split)


lemma main_start_trace:
  "trace (main_start env) = [LogInfo ''starting manager'', Start (mgr_Start env)] \<or>
   (\<exists>e. trace (main_start env) =
      [LogInfo ''starting manager'', Start (mgr_Start env),
       LogError e ''problem running manager'' []])"
  by (simp add: main_start_def Let_def split: option.split)

lemma start_in_main_start: "Start e \<in> set (trace (main_start env)) \<longleftrightarrow> e = mgr_Start env"
  by (auto simp add: main_start_def Let_def split: option.split)

lemma start_in_main_checks:
  "Start e \<in> set (trace (main_checks env)) \<Longrightarrow>
   trace (main_checks env) =
     [AddHealthzCheck ''healthz'' Ping None, AddReadyzCheck ''readyz'' Ping None] @
     trace (main_start env)"
  by (auto simp add: main_checks_def Let_def split: option.splits)

lemma start_in_main_controllers:
  "Start e \<in> set (trace (main_controllers fl env ns cc mgr)) \<Longrightarrow>
   \<exists>pre. trace (main_controllers fl env ns cc mgr) = pre @ trace (main_checks env) \<and>
     Start e \<in> set (trace (main_checks env))"
  by (auto simp add: main_controllers_def Let_def split: option.splits)


lemma start_in_main_manager:
  "Start e \<in> set (trace (main_manager fl env ns)) \<Longrightarrow>
   \<exists>pre. trace (main_manager fl env ns) = pre @ trace (main_checks env) \<and>
     Start e \<in> set (trace (main_checks env))"
  by (auto simp add: main_manager_def Let_def split: option.splits prod.splits
      dest!: start_in_main_controllers)

lemma start_in_main:
  "Start e \<in> set (trace (main args env)) \<Longrightarrow>
   \<exists>pre. trace (main args env) = pre @ trace (main_checks env) \<and>
     Start e \<in> set (trace (main_checks env))"
  by (auto simp add: main_def Let_def split: option.splits prod.splits if_splits
      dest!: start_in_main_manager)

lemma checks_before_start:
  assumes "Start e \<in> set (trace (main args env))"
  shows "\<exists>pre post. trace (main args env) =
     pre @ [AddHealthzCheck ''healthz'' Ping None, AddReadyzCheck ''readyz'' Ping None,
            LogInfo ''starting manager'', Start e] @ post"
proof -
  from start_in_main [OF assms] obtain pre where
    pre: "trace (main args env) = pre @ trace (main_checks env)" and
    mem: "Start e \<in> set (trace (main_checks env))"
    by blast
  from start_in_main_checks [OF mem] have
    chk: "trace (main_checks env) =
       [AddHealthzCheck ''healthz'' Ping None, AddReadyzCheck ''readyz'' Ping None] @
       trace (main_start env)" .
  with mem have "Start e \<in> set (trace (main_start env))"
    by simp
  then have e: "e = mgr_Start env"
    by (simp add: start_in_main_start)
  from main_start_trace [of env] obtain post where
    "trace (main_start env) = [LogInfo ''starting manager'', Start e] @ post"
    unfolding e by auto
  with pre chk show ?thesis
    by auto
qed

lemma no_config_client_in_main_controllers:
  "NewConfigClient x \<notin> set (trace (main_controllers fl env ns cc mgr))"
  by (simp add: main_controllers_def main_checks_def main_start_def Let_def split: option.split)

lemma config_client_failure_in_main_manager:
  assumes "NewConfigClient (cc, Some e) \<in> set (trace (main_manager fl env ns))"
  shows "\<exists>ev post. trace (main_manager fl env ns) =
     ev # NewConfigClient (cc, Some e) # LogError e ''error creating config client'' [] #
     GetConfigOrDie (ctrl_GetConfigOrDie env) # post"
    and "util_NewConfigClient env = (cc, Some e)"
  using assms
  by (auto simp add: main_manager_def Let_def no_config_client_in_main_controllers
      split: option.splits prod.splits if_splits)

lemma config_client_in_main:
  assumes "NewConfigClient x \<in> set (trace (main args env))"
  shows "\<exists>pre ns. trace (main args env) = pre @ trace (main_manager (parse_flags args) env ns) \<and>
     NewConfigClient x \<in> set (trace (main_manager (parse_flags args) env ns))"
proof (cases "clusterResourceNamespace (parse_flags args) = []")
  case True
  obtain ns err where r: "util_GetInClusterNamespace env = (ns, err)"
    by (cases "util_GetInClusterNamespace env")
  with True assms have "trace (main args env) =
      [SetLogger, GetInClusterNamespace (ns, None)] @
      trace (main_manager (parse_flags args) env ns) \<and>
    NewConfigClient x \<in> set (trace (main_manager (parse_flags args) env ns))"
    by (cases err) (simp_all add: main_def Let_def split: if_splits)
  then show ?thesis
    by blast
next
  case False
  with assms have "trace (main args env) =
      [SetLogger] @
      trace (main_manager (parse_flags args) env (clusterResourceNamespace (parse_flags args))) \<and>
    NewConfigClient x \<in> set (trace (main_manager (parse_flags args) env
      (clusterResourceNamespace (parse_flags args))))"
    by (simp add: main_def Let_def)
  then show ?thesis
    by blast
qed

lemma config_client_failure_in_main:
  assumes "NewConfigClient (cc, Some e) \<in> set (trace (main args env))"
  shows "\<exists>pre post. trace (main args env) =
     pre @ [NewConfigClient (cc, Some e), LogError e ''error creating config client'' [],
            GetConfigOrDie (ctrl_GetConfigOrDie env)] @ post"
    and "util_NewConfigClient env = (cc, Some e)"
proof -
  from config_client_in_main [OF assms] obtain pre ns where
    pre: "trace (main args env) = pre @ trace (main_manager (parse_flags args) env ns)" and
    mem: "NewConfigClient (cc, Some e) \<in> set (trace (main_manager (parse_flags args) env ns))"
    by blast
  from config_client_failure_in_main_manager(1) [OF mem] obtain ev post where
    "trace (main_manager (parse_flags args) env ns) =
       ev # NewConfigClient (cc, Some e) # LogError e ''error creating config client'' [] #
       GetConfigOrDie (ctrl_GetConfigOrDie env) # post"
    by blast
  with pre have "trace (main args env) =
     (pre @ [ev]) @ [NewConfigClient (cc, Some e), LogError e ''error creating config client'' [],
            GetConfigOrDie (ctrl_GetConfigOrDie env)] @ post"
    by simp
  then show "\<exists>pre post. trace (main args env) =
     pre @ [NewConfigClient (cc, Some e), LogError e ''error creating config client'' [],
            GetConfigOrDie (ctrl_GetConfigOrDie env)] @ post"
    by blast
  from config_client_failure_in_main_manager(2) [OF mem]
  show "util_NewConfigClient env = (cc, Some e)" .
qed

lemma main_controllers_printVersion:
  "main_controllers (fl\<lparr>printVersion := v\<rparr>) env ns cc mgr = main_controllers fl env ns cc mgr"
  by (simp add: main_controllers_def Let_def cong: option.case_cong)

lemma main_manager_printVersion:
  "main_manager (fl\<lparr>printVersion := v\<rparr>) env ns = main_manager fl env ns"
  by (simp add: main_manager_def Let_def main_controllers_printVersion
      cong: option.case_cong prod.case_cong)

lemma parse_flags_version:
  "parse_flags (args\<lparr>arg_version := v\<rparr>) =
   (parse_flags args)\<lparr>printVersion := BoolVar v False\<rparr>"
  by (simp add: parse_flags_def)

lemma main_ignores_version: "main (args\<lparr>arg_version := v\<rparr>) env = main args env"
  by (simp add: main_def Let_def parse_flags_version main_manager_printVersion
      cong: option.case_cong prod.case_cong if_cong)

lemma no_stdout_main_start: "Stdout s \<notin> set (trace (main_start env))"
  by (simp add: main_start_def Let_def split: option.split)

lemma no_stdout_main_checks: "Stdout s \<notin> set (trace (main_checks env))"
  by (simp add: main_checks_def Let_def no_stdout_main_start split: option.split)

lemma no_stdout_main_controllers: "Stdout s \<notin> set (trace (main_controllers fl env ns cc mgr))"
  by (simp add: main_controllers_def Let_def no_stdout_main_checks split: option.split)

lemma no_stdout_main_manager: "Stdout s \<notin> set (trace (main_manager fl env ns))"
  by (simp add: main_manager_def Let_def no_stdout_main_controllers
      split: option.split prod.split)

lemma no_stdout_main: "Stdout s \<notin> set (trace (main args env))"
  by (simp add: main_def Let_def no_stdout_main_manager split: option.split prod.split)

lemmas run_defs = main_def main_manager_def main_controllers_def main_checks_def main_start_def
  parse_flags_def StringVar_def BoolVar_def steps_def os_Exit_def return_from_main_def Let_def
  no_flags_def version_flag_def in_cluster_def no_config_client_def not_in_cluster_def

lemmas reconcile_defs = reconciles.simps reconcile_def approver_sets_def set_ready_def
  ready_reason_def approval_of_def fresh_request_def no_status_def signing_round_def Let_def

subsection \<open>The reconcile pass\<close>

lemma find_condition_set_condition:
  "find_condition ty (set_condition new cs) =
   (if cond_type new = ty then Some new else find_condition ty cs)"
  by (induction cs) auto

lemma issued_approver_sets: "issued (approver_sets a st) = issued st"
  by (cases a rule: option.exhaust [case_names None Some])
    (auto simp add: approver_sets_def issued_def find_condition_set_condition split: approval.split)

lemma issued_ready_reason: "issued st \<Longrightarrow> ready_reason st = Some ''Issued''"
  by (auto simp add: issued_def ready_reason_def split: option.splits)

lemma reconcile_issued:
  "issued st \<Longrightarrow>
   reconcile check spec st ext = \<lparr>new_status = st, requeue = NoRequeue, ca_call = NoCall\<rparr>"
  by (simp add: reconcile_def issued_ready_reason)

lemma reconcile_issuance:
  "issuance (ca_call (reconcile check spec st ext)) \<Longrightarrow>
   issued (new_status (reconcile check spec st ext))"
  by (auto simp add: reconcile_def set_ready_def issued_def find_condition_set_condition
      split: if_splits option.splits sign_result.splits)

lemma approver_sets_keeps:
  "certificate (approver_sets a st) = certificate st" "ca (approver_sets a st) = ca st"
  by (cases a; auto simp add: approver_sets_def split: approval.split)+

lemma reconciles_issued:
  "issued st \<Longrightarrow>
   snd (reconciles check spec st rounds) = replicate (length rounds) NoCall \<and>
   issued (fst (reconciles check spec st rounds)) \<and>
   certificate (fst (reconciles check spec st rounds)) = certificate st \<and>
   ca (fst (reconciles check spec st rounds)) = ca st"
proof (induction rounds arbitrary: st)
  case Nil
  then show ?case by simp
next
  case (Cons round rounds)
  obtain a ext where round: "round = (a, ext)"
    by (cases round)
  from Cons.prems have i: "issued (approver_sets a st)"
    by (simp add: issued_approver_sets)
  from Cons.IH [OF i] reconcile_issued [OF i] show ?case
    by (simp add: round Let_def split_beta approver_sets_keeps)
qed

lemma reconciles_at_most_once:
  "length (filter issuance (snd (reconciles check spec st rounds))) \<le> 1"
proof (induction rounds arbitrary: st)
  case Nil
  then show ?case by simp
next
  case (Cons round rounds)
  obtain a ext where round: "round = (a, ext)"
    by (cases round)
  let ?r = "reconcile check spec (approver_sets a st) ext"
  show ?case
  proof (cases "issuance (ca_call ?r)")
    case True
    then have "issued (new_status ?r)"
      by (rule reconcile_issuance)
    from reconciles_issued [OF this, of check spec rounds]
    have "filter issuance (snd (reconciles check spec (new_status ?r) rounds)) = []"
      by simp
    with True show ?thesis
      by (simp add: round Let_def split_beta)
  next
    case False
    with Cons.IH [of "new_status ?r"] show ?thesis
      by (simp add: round Let_def split_beta)
  qed
qed

subsection \<open>The claims about main.go\<close>

text \<open>
  C1. The claim: invoked with \<^verbatim>\<open>--version\<close>, the process prints the version to stdout and
  exits with code 0, without resolving the namespace or constructing the manager.
  main.go declares the flag with the usage text "Print version to stdout and exit" and
  never reads \<open>printVersion\<close>. Outside a cluster, \<^verbatim>\<open>--version\<close> alone goes on to the
  namespace discovery, logs its error and exits with code 1, and nothing is written to stdout.
\<close>

theorem version_flag_is_not_honoured:
  "main version_flag not_in_cluster =
     \<lparr>exit_code = 1,
      trace = [SetLogger, GetInClusterNamespace ([], Some ErrNotInCluster),
               LogError ErrNotInCluster ''please supply --cluster-resource-namespace'' []]\<rparr>"
  by (simp add: run_defs)

text \<open>
  C3. When the flag \<^verbatim>\<open>cluster-resource-namespace\<close> is absent or empty, the run calls
  \<^verbatim>\<open>util.GetInClusterNamespace\<close> right after setting the logger. When that call returns an
  error, the run logs the error (with the message for \<^verbatim>\<open>ErrNotInCluster\<close> or the one
  for any other error) and exits with code 1; this is the whole run, so neither
  \<^verbatim>\<open>GetConfigOrDie\<close> nor \<^verbatim>\<open>NewManager\<close> is reached.
\<close>

theorem namespace_discovery_failure_is_fatal:
  assumes "arg_cluster_resource_namespace args = None \<or>
           arg_cluster_resource_namespace args = Some []"
  shows "(\<exists>rest. trace (main args env) =
            SetLogger # GetInClusterNamespace (util_GetInClusterNamespace env) # rest) \<and>
         (\<forall>ns e. util_GetInClusterNamespace env = (ns, Some e) \<longrightarrow>
            main args env =
              \<lparr>exit_code = 1,
               trace = [SetLogger, GetInClusterNamespace (ns, Some e),
                        LogError e
                          (if errors_Is e ErrNotInCluster
                           then ''please supply --cluster-resource-namespace''
                           else ''unexpected error while getting in-cluster Namespace'')
                          []]\<rparr>)"
proof -
  from assms have unset: "clusterResourceNamespace (parse_flags args) = []"
    by (auto simp add: parse_flags_def StringVar_def)
  obtain ns err where r: "util_GetInClusterNamespace env = (ns, err)"
    by (cases "util_GetInClusterNamespace env")
  show ?thesis
  proof (cases err)
    case None
    with unset r show ?thesis
      by (simp add: main_def Let_def)
  next
    case (Some e)
    with unset r show ?thesis
      by (simp add: main_def Let_def steps_def os_Exit_def)
  qed
qed

theorem namespace_discovery_failure_is_fatal_witness:
  "(arg_cluster_resource_namespace no_flags = None \<or>
    arg_cluster_resource_namespace no_flags = Some []) \<and>
   util_GetInClusterNamespace not_in_cluster = ([], Some ErrNotInCluster) \<and>
   main no_flags not_in_cluster =
     \<lparr>exit_code = 1,
      trace = [SetLogger, GetInClusterNamespace ([], Some ErrNotInCluster),
               LogError ErrNotInCluster ''please supply --cluster-resource-namespace'' []]\<rparr>"
proof -
  have unset: "arg_cluster_resource_namespace no_flags = None \<or>
      arg_cluster_resource_namespace no_flags = Some []"
    by (simp add: no_flags_def)
  have fails: "util_GetInClusterNamespace not_in_cluster = ([], Some ErrNotInCluster)"
    by (simp add: not_in_cluster_def in_cluster_def)
  from namespace_discovery_failure_is_fatal [OF unset, of not_in_cluster] fails unset
  show ?thesis
    by simp
qed



text \<open>
  C5. Every CertificateRequestReconciler that main registers has
  \<open>CheckApprovedCondition\<close> equal to the negation of the variable the flag
  \<^verbatim>\<open>disable-approved-check\<close> is parsed into, which is true exactly when the flag is absent
  or false; with the flag absent the variable is false.
\<close>

theorem check_approved_condition_negates_flag:
  "(\<forall>r \<in> set (certificate_request_reconcilers (trace (main args env))).
      cr_CheckApprovedCondition r = (\<not> disableApprovedCheck (parse_flags args)) \<and>
      cr_CheckApprovedCondition r =
        (arg_disable_approved_check args = None \<or>
         arg_disable_approved_check args = Some False)) \<and>
   (arg_disable_approved_check args = None \<longrightarrow> \<not> disableApprovedCheck (parse_flags args))"
proof -
  have "(\<not> disableApprovedCheck (parse_flags args)) =
      (arg_disable_approved_check args = None \<or> arg_disable_approved_check args = Some False)"
    by (cases "arg_disable_approved_check args") (simp_all add: parse_flags_def BoolVar_def)
  with main_fields(2) [of args env] show ?thesis
    by auto
qed

theorem check_approved_condition_negates_flag_witness:
  "arg_disable_approved_check no_flags = None \<and>
   map cr_CheckApprovedCondition
     (certificate_request_reconcilers (trace (main no_flags in_cluster))) = [True] \<and>
   map cr_CheckApprovedCondition
     (certificate_request_reconcilers
        (trace (main (no_flags\<lparr>arg_disable_approved_check := Some True\<rparr>) in_cluster))) =
     [False]"
  using check_approved_condition_negates_flag [of no_flags in_cluster]
    check_approved_condition_negates_flag
      [of "no_flags\<lparr>arg_disable_approved_check := Some True\<rparr>" in_cluster]
  by (simp add: run_defs)

text \<open>
  C6. Every reconciler that main registers, of either struct, gets the value of the one
  flag \<^verbatim>\<open>secret-access-granted-at-cluster-level\<close> and the one namespace that lines 92 to
  103 have determined (the flag \<^verbatim>\<open>cluster-resource-namespace\<close>, or the discovered
  namespace when the flag is empty).
\<close>

theorem secret_access_scope_is_process_wide:
  "(\<forall>r \<in> set (issuer_reconcilers (trace (main args env))).
      ir_SecretAccessGrantedAtClusterLevel r =
        BoolVar (arg_secret_access_granted_at_cluster_level args) False \<and>
      ir_ClusterResourceNamespace r =
        (if StringVar (arg_cluster_resource_namespace args) [] = []
         then fst (util_GetInClusterNamespace env)
         else StringVar (arg_cluster_resource_namespace args) [])) \<and>
   (\<forall>r \<in> set (certificate_request_reconcilers (trace (main args env))).
      cr_SecretAccessGrantedAtClusterLevel r =
        BoolVar (arg_secret_access_granted_at_cluster_level args) False \<and>
      cr_ClusterResourceNamespace r =
        (if StringVar (arg_cluster_resource_namespace args) [] = []
         then fst (util_GetInClusterNamespace env)
         else StringVar (arg_cluster_resource_namespace args) []))"
  using main_fields [of args env] by (simp add: parse_flags_def)

theorem secret_access_scope_is_process_wide_witness:
  "map (\<lambda>r. (ir_Kind r, ir_SecretAccessGrantedAtClusterLevel r, ir_ClusterResourceNamespace r))
     (issuer_reconcilers
        (trace (main (no_flags\<lparr>arg_secret_access_granted_at_cluster_level := Some True\<rparr>)
                  in_cluster))) =
     [(''Issuer'', True, ''command-issuer-system''),
      (''ClusterIssuer'', True, ''command-issuer-system'')] \<and>
   map (\<lambda>r. (cr_SecretAccessGrantedAtClusterLevel r, cr_ClusterResourceNamespace r))
     (certificate_request_reconcilers
        (trace (main (no_flags\<lparr>arg_secret_access_granted_at_cluster_level := Some True\<rparr>)
                  in_cluster))) =
     [(True, ''command-issuer-system'')]"
  using secret_access_scope_is_process_wide
    [of "no_flags\<lparr>arg_secret_access_granted_at_cluster_level := Some True\<rparr>" in_cluster]
  by (simp add: run_defs)

text \<open>
  C7. The options of every manager that main constructs carry, as the bind address of the
  metrics server, the value of the flag \<^verbatim>\<open>metrics-bind-address\<close> or \<open>:8080\<close> when the
  flag is absent, and as the health probe bind address the value of the flag
  \<^verbatim>\<open>health-probe-bind-address\<close> or \<open>:8081\<close> when the flag is absent.
\<close>

theorem bind_addresses_of_the_manager:
  "\<forall>opts \<in> set (manager_options (trace (main args env))).
     BindAddress (Metrics opts) =
       (case arg_metrics_bind_address args of None \<Rightarrow> '':8080'' | Some a \<Rightarrow> a) \<and>
     HealthProbeBindAddress opts =
       (case arg_health_probe_bind_address args of None \<Rightarrow> '':8081'' | Some a \<Rightarrow> a)"
  using main_options [of args env] by (simp add: parse_flags_def StringVar_def)

theorem bind_addresses_of_the_manager_witness:
  "map (\<lambda>opts. (BindAddress (Metrics opts), HealthProbeBindAddress opts))
     (manager_options (trace (main no_flags in_cluster))) = [('':8080'', '':8081'')] \<and>
   map (\<lambda>opts. (BindAddress (Metrics opts), HealthProbeBindAddress opts))
     (manager_options
        (trace (main (no_flags\<lparr>arg_metrics_bind_address := Some ''127.0.0.1:9090''\<rparr>)
                  in_cluster))) =
     [(''127.0.0.1:9090'', '':8081'')]"
  using bind_addresses_of_the_manager [of no_flags in_cluster]
    bind_addresses_of_the_manager
      [of "no_flags\<lparr>arg_metrics_bind_address := Some ''127.0.0.1:9090''\<rparr>" in_cluster]
  by (simp add: run_defs)

text \<open>
  C8. \<^verbatim>\<open>healthz.Ping\<close> returns no error for any request. The only health check a run adds
  is \<open>Ping\<close> under the name \<open>healthz\<close>, the only ready check is \<open>Ping\<close> under the
  name \<open>readyz\<close>, and whenever the run starts the manager, both registrations have
  succeeded immediately before the start.
\<close>

theorem health_and_ready_checks_are_ping:
  "(\<forall>req. Ping req = None) \<and>
   set (healthz_checks (trace (main args env))) \<subseteq> {(''healthz'', Ping)} \<and>
   set (readyz_checks (trace (main args env))) \<subseteq> {(''readyz'', Ping)} \<and>
   (\<forall>e. Start e \<in> set (trace (main args env)) \<longrightarrow>
      (\<exists>pre post. trace (main args env) =
         pre @ [AddHealthzCheck ''healthz'' Ping None, AddReadyzCheck ''readyz'' Ping None,
                LogInfo ''starting manager'', Start e] @ post))"
proof -
  have "\<forall>req. Ping req = None"
    by (simp add: Ping_def)
  moreover from main_checks_registered(1) [of args env]
  have "set (healthz_checks (trace (main args env))) \<subseteq> {(''healthz'', Ping)}"
    by auto
  moreover from main_checks_registered(2) [of args env]
  have "set (readyz_checks (trace (main args env))) \<subseteq> {(''readyz'', Ping)}"
    by auto
  ultimately show ?thesis
    using checks_before_start [of _ args env] by blast
qed

theorem health_and_ready_checks_are_ping_witness:
  "Start None \<in> set (trace (main no_flags in_cluster)) \<and>
   healthz_checks (trace (main no_flags in_cluster)) = [(''healthz'', Ping)] \<and>
   readyz_checks (trace (main no_flags in_cluster)) = [(''readyz'', Ping)] \<and>
   Ping (Request 0) = None \<and>
   (\<exists>pre post. trace (main no_flags in_cluster) =
      pre @ [AddHealthzCheck ''healthz'' Ping None, AddReadyzCheck ''readyz'' Ping None,
             LogInfo ''starting manager'', Start None] @ post)"
proof -
  have started: "Start None \<in> set (trace (main no_flags in_cluster))"
    by (simp add: run_defs)
  have checks: "healthz_checks (trace (main no_flags in_cluster)) = [(''healthz'', Ping)]"
    "readyz_checks (trace (main no_flags in_cluster)) = [(''readyz'', Ping)]"
    by (simp_all add: run_defs)
  from health_and_ready_checks_are_ping [of no_flags in_cluster] started checks
  show ?thesis
    by blast
qed

text \<open>
  C9. When \<^verbatim>\<open>util.NewConfigClient\<close> has returned an error in a run, the run logs the
  error and goes on to \<^verbatim>\<open>ctrl.GetConfigOrDie\<close>, the next call of main; and every
  reconciler that the run registers holds the config client that the failed call returned
  together with the error.
\<close>

theorem config_client_failure_is_not_fatal:
  assumes "NewConfigClient (cc, Some e) \<in> set (trace (main args env))"
  shows "(\<exists>pre post. trace (main args env) =
            pre @ [NewConfigClient (cc, Some e),
                   LogError e ''error creating config client'' [],
                   GetConfigOrDie (ctrl_GetConfigOrDie env)] @ post) \<and>
         (\<forall>r \<in> set (issuer_reconcilers (trace (main args env))). ir_ConfigClient r = cc) \<and>
         (\<forall>r \<in> set (certificate_request_reconcilers (trace (main args env))).
            cr_ConfigClient r = cc)"
  using config_client_failure_in_main [OF assms] main_fields [of args env] by simp

theorem config_client_failure_is_not_fatal_witness:
  "NewConfigClient (NilConfigClient, Some (Err ''no kubeconfig''))
     \<in> set (trace (main no_flags no_config_client)) \<and>
   map ir_ConfigClient (issuer_reconcilers (trace (main no_flags no_config_client))) =
     [NilConfigClient, NilConfigClient] \<and>
   map cr_ConfigClient
     (certificate_request_reconcilers (trace (main no_flags no_config_client))) =
     [NilConfigClient] \<and>
   exit_code (main no_flags no_config_client) = 0 \<and>
   (\<exists>pre post. trace (main no_flags no_config_client) =
      pre @ [NewConfigClient (NilConfigClient, Some (Err ''no kubeconfig'')),
             LogError (Err ''no kubeconfig'') ''error creating config client'' [],
             GetConfigOrDie (ctrl_GetConfigOrDie no_config_client)] @ post)"
proof -
  have failed: "NewConfigClient (NilConfigClient, Some (Err ''no kubeconfig''))
      \<in> set (trace (main no_flags no_config_client))"
    by (simp add: run_defs)
  have fields:
    "map ir_ConfigClient (issuer_reconcilers (trace (main no_flags no_config_client))) =
       [NilConfigClient, NilConfigClient]"
    "map cr_ConfigClient
       (certificate_request_reconcilers (trace (main no_flags no_config_client))) =
       [NilConfigClient]"
    "exit_code (main no_flags no_config_client) = 0"
    by (simp_all add: run_defs)
  from config_client_failure_is_not_fatal [OF failed] failed fields show ?thesis
    by blast
qed

text \<open>
  C10. Any two IssuerReconcilers that main registers agree on \<open>Client\<close>,
  \<open>ConfigClient\<close>, \<open>Scheme\<close>, \<open>ClusterResourceNamespace\<close>,
  \<open>SecretAccessGrantedAtClusterLevel\<close> and \<open>HealthCheckerBuilder\<close>; and main registers
  them in the order of the kinds \<open>Issuer\<close>, \<open>ClusterIssuer\<close> (none, or the first
  only, when the run ends before).
\<close>

theorem issuer_reconcilers_differ_in_kind_only:
  "(\<forall>r \<in> set (issuer_reconcilers (trace (main args env))).
    \<forall>r' \<in> set (issuer_reconcilers (trace (main args env))). same_except_Kind r r') \<and>
   (issuer_reconcilers (trace (main args env)) = [] \<or>
    map ir_Kind (issuer_reconcilers (trace (main args env))) = [''Issuer''] \<or>
    map ir_Kind (issuer_reconcilers (trace (main args env))) = [''Issuer'', ''ClusterIssuer''])"
  using main_agree [of args env] main_kinds [of args env] by simp

theorem issuer_reconcilers_differ_in_kind_only_witness:
  "(\<exists>i c. issuer_reconcilers (trace (main no_flags in_cluster)) = [i, c] \<and>
      ir_Kind i = ''Issuer'' \<and> ir_Kind c = ''ClusterIssuer'' \<and> same_except_Kind i c \<and>
      c = i\<lparr>ir_Kind := ''ClusterIssuer''\<rparr>)"
  using issuer_reconcilers_differ_in_kind_only [of no_flags in_cluster]
  by (simp add: run_defs same_except_Kind_def)

subsection \<open>The claim about the reconciler\<close>

text \<open>
  C2. Over any initial status and any rounds of approver action and reconcile pass, at most
  one pass makes a successful call to the signer and writes the certificate. Once
  \<open>Ready=True,reason=Issued\<close> is recorded, a pass returns the status as it is, without
  requeue and without a call to the signer; so over any further rounds no call is made,
  the request stays issued and its certificate and CA stay as they are.
\<close>

theorem at_most_once_issuance:
  "length (filter issuance (snd (reconciles check spec st rounds))) \<le> 1 \<and>
   (issued st \<longrightarrow>
      reconcile check spec st ext =
        \<lparr>new_status = st, requeue = NoRequeue, ca_call = NoCall\<rparr> \<and>
      snd (reconciles check spec st rounds) = replicate (length rounds) NoCall \<and>
      issued (fst (reconciles check spec st rounds)) \<and>
      certificate (fst (reconciles check spec st rounds)) = certificate st \<and>
      ca (fst (reconciles check spec st rounds)) = ca st)"
  using reconciles_at_most_once [of check spec st rounds]
    reconciles_issued [of st check spec rounds] reconcile_issued [of st check spec ext]
  by blast

theorem at_most_once_issuance_witness:
  "snd (reconciles True fresh_request no_status [signing_round, signing_round, signing_round]) =
     [Submitted (Signed ''CERT for CSR'' ''CA''), NoCall, NoCall] \<and>
   issued (fst (reconciles True fresh_request no_status [signing_round])) \<and>
   snd (reconciles True fresh_request
          (fst (reconciles True fresh_request no_status [signing_round]))
          [signing_round, signing_round]) = [NoCall, NoCall] \<and>
   certificate (fst (reconciles True fresh_request
          (fst (reconciles True fresh_request no_status [signing_round]))
          [signing_round, signing_round])) = Some ''CERT for CSR''"
proof -
  have first: "reconciles True fresh_request no_status [signing_round] =
      (\<lparr>conditions =
          [\<lparr>cond_type = ''Approved'', cond_status = CondTrue, cond_reason = ''Approved'',
            cond_message = []\<rparr>,
           \<lparr>cond_type = ''Ready'', cond_status = CondTrue, cond_reason = ''Issued'',
            cond_message = []\<rparr>],
        certificate = Some ''CERT for CSR'', ca = Some ''CA''\<rparr>,
       [Submitted (Signed ''CERT for CSR'' ''CA'')])"
    by (simp add: reconcile_defs)
  have is_issued: "issued (fst (reconciles True fresh_request no_status [signing_round]))"
    unfolding first by (simp add: issued_def)
  have run: "snd (reconciles True fresh_request no_status
        [signing_round, signing_round, signing_round]) =
      [Submitted (Signed ''CERT for CSR'' ''CA''), NoCall, NoCall]"
    by (simp add: reconcile_defs)
  from at_most_once_issuance
    [of True fresh_request "fst (reconciles True fresh_request no_status [signing_round])"
       "[signing_round, signing_round]" "snd signing_round"]
    is_issued run
  show ?thesis
    by (simp add: first)
qed

end
